theory Spec2Isabelle
  imports Main "HOL-Library.Sublist" "HOL-Library.Word"
begin

unbundle bit_operations_syntax

section \<open>conpot/core/file_io.py: the per-protocol virtual file system\<close>

text \<open>
  The module defines \<^verbatim>\<open>sanitize_file_name\<close>, the upload writer \<^verbatim>\<open>FileWriter\<close> and the
  jail \<^verbatim>\<open>AbstractFS\<close>. Exceptions are values of \<open>error\<close>; a method that can raise
  returns \<open>error + 'a\<close> with \<open>Inl\<close> for the exception. Python strings are \<open>string\<close>,
  Python's unbounded integers are \<open>int\<close>. Time stamps, which Python holds as floats, are
  whole seconds here.
\<close>

datatype error =
    AssertionError
  | TypeError
  | KeyError string
  | ValueError
  | FileExistsError
  | ResourceNotFound
  | DirectoryExists
  | IllegalBackReference
  | CreateFailed
  | OverflowError
  | OSError
  | FileNotFoundError
  | NotADirectoryError
  | IsADirectoryError

subsection \<open>The backing store, as the module uses it\<close>

text \<open>
  \<^verbatim>\<open>home_fs\<close> is an object of the \<^verbatim>\<open>fs\<close> package (a \<^verbatim>\<open>SubFS\<close> of a \<^verbatim>\<open>TempFS\<close>).
  The module calls three of its queries: \<^verbatim>\<open>isdir(path)\<close>,
  \<^verbatim>\<open>getinfo(path, namespaces='stat').raw['stat']\<close> (a dictionary of the \<^verbatim>\<open>st_*\<close> fields) and
  \<^verbatim>\<open>getinfo(path, namespaces=['link']).raw['link']['target']\<close> (a string, or \<^verbatim>\<open>None\<close>).
  The package is not part of the module, so the jail's operations take the three queries
  as a record of functions; every general theorem below holds for any such record.
\<close>

record subfs =
  isdir :: "string \<Rightarrow> error + bool"
  getinfo_stat :: "string \<Rightarrow> error + (string \<rightharpoonup> int)"
  getinfo_link :: "string \<Rightarrow> error + string option"

text \<open>
  Modelled from the spec: the backing store collaborator of section 6 (open a store,
  exclusively create a directory, recursively mirror a source location into a destination
  preserving file bytes, directory structure and symlink targets, query metadata), with the
  path rules of the \<^verbatim>\<open>fs\<close> package: a path is split at \<^verbatim>\<open>/\<close>, empty and \<^verbatim>\<open>.\<close>
  components are dropped, \<^verbatim>\<open>..\<close> removes the component before it and is an
  \<^verbatim>\<open>IllegalBackReference\<close> when there is none. A store is a finite table from canonical
  component lists to resources. It serves the concrete jails at which theorems are
  evaluated, and the constructor \<^verbatim>\<open>AbstractFS.__init__\<close>.
\<close>

type_synonym bytes = "8 word list"

datatype kind = Directory | RegularFile | SymLink

record resource =
  rkind :: kind
  rstat :: "(string \<times> int) list"
  rtarget :: "string option"
  rdata :: bytes

type_synonym store = "(string list \<times> resource) list"

fun split_on :: "char \<Rightarrow> string \<Rightarrow> string list" where
  "split_on c [] = [[]]"
| "split_on c (x # xs) =
     (if x = c then [] # split_on c xs
      else (case split_on c xs of [] \<Rightarrow> [[x]] | y # ys \<Rightarrow> (x # y) # ys))"

fun norm_components :: "string list \<Rightarrow> string list \<Rightarrow> string list option" where
  "norm_components acc [] = Some acc"
| "norm_components acc (c # cs) =
     (if c = ''..'' then (if acc = [] then None else norm_components (butlast acc) cs)
      else if c = [] \<or> c = ''.'' then norm_components acc cs
      else norm_components (acc @ [c]) cs)"

definition normpath :: "string \<Rightarrow> string list option" where
  "normpath path = norm_components [] (split_on CHR ''/'' path)"

definition store_getinfo :: "store \<Rightarrow> string list \<Rightarrow> string \<Rightarrow> error + resource" where
  "store_getinfo t sub_dir path =
     (case normpath path of
        None \<Rightarrow> Inl IllegalBackReference
      | Some segs \<Rightarrow>
          (case map_of t (sub_dir @ segs) of
             None \<Rightarrow> Inl ResourceNotFound
           | Some r \<Rightarrow> Inr r))"

definition SubFS :: "store \<Rightarrow> string list \<Rightarrow> subfs" where
  "SubFS t sub_dir =
     \<lparr> isdir = (\<lambda>path. case store_getinfo t sub_dir path of
                  Inl ResourceNotFound \<Rightarrow> Inr False
                | Inl e \<Rightarrow> Inl e
                | Inr r \<Rightarrow> Inr (rkind r = Directory)),
       getinfo_stat = (\<lambda>path. case store_getinfo t sub_dir path of
                  Inl e \<Rightarrow> Inl e
                | Inr r \<Rightarrow> Inr (map_of (rstat r))),
       getinfo_link = (\<lambda>path. case store_getinfo t sub_dir path of
                  Inl e \<Rightarrow> Inl e
                | Inr r \<Rightarrow> Inr (rtarget r)) \<rparr>"

subsection \<open>AbstractFS: state, chdir, getcwd, stat, readlink\<close>

text \<open>
  The fields \<^verbatim>\<open>_root\<close>, \<^verbatim>\<open>_home\<close>, \<^verbatim>\<open>_cwd\<close>, \<^verbatim>\<open>root_fs\<close>, \<^verbatim>\<open>home_fs\<close> and
  \<^verbatim>\<open>data_fs\<close> of the class.
\<close>

record abstract_fs =
  root :: string
  home :: string
  cwd :: string
  root_fs :: store
  home_fs :: subfs
  data_fs :: store

text \<open>
  \<^verbatim>\<open>chdir\<close>: \<^verbatim>\<open>assert path, isinstance(path, str)\<close> raises \<^verbatim>\<open>AssertionError\<close> on the empty
  string (the \<^verbatim>\<open>except AssertionError: raise\<close> re-raises it). The target is the string
  \<^verbatim>\<open>self._cwd + path\<close>. When \<^verbatim>\<open>home_fs.isdir\<close> accepts it, \<^verbatim>\<open>self._cwd += path\<close>;
  otherwise the \<^verbatim>\<open>FSError\<close> is constructed and dropped (there is no \<^verbatim>\<open>raise\<close>), and the
  method returns with the state as it was. An exception of \<^verbatim>\<open>isdir\<close> itself propagates.
\<close>

definition chdir :: "abstract_fs \<Rightarrow> string \<Rightarrow> error + abstract_fs" where
  "chdir s path =
     (if path = [] then Inl AssertionError
      else (case isdir (home_fs s) (cwd s @ path) of
              Inl e \<Rightarrow> Inl e
            | Inr True \<Rightarrow> Inr (s\<lparr>cwd := cwd s @ path\<rparr>)
            | Inr False \<Rightarrow> Inr s))"

definition getcwd :: "abstract_fs \<Rightarrow> string" where
  "getcwd s = cwd s"

text \<open>A sequence of \<^verbatim>\<open>chdir\<close> calls; the first exception ends it.\<close>

fun chdir_all :: "abstract_fs \<Rightarrow> string list \<Rightarrow> error + abstract_fs" where
  "chdir_all s [] = Inr s"
| "chdir_all s (p # ps) =
     (case chdir s p of Inl e \<Rightarrow> Inl e | Inr s' \<Rightarrow> chdir_all s' ps)"

text \<open>
  \<^verbatim>\<open>stat\<close> asserts a non-empty path and returns the store's raw \<^verbatim>\<open>stat\<close> dictionary.
  \<^verbatim>\<open>readlink\<close> asserts a non-empty path and then queries the link target of the fixed
  path \<^verbatim>\<open>'.'\<close>; its argument is not used again.
\<close>

definition stat :: "abstract_fs \<Rightarrow> string \<Rightarrow> error + (string \<rightharpoonup> int)" where
  "stat s path =
     (if path = [] then Inl AssertionError else getinfo_stat (home_fs s) path)"

definition readlink :: "abstract_fs \<Rightarrow> string \<Rightarrow> error + string option" where
  "readlink s path =
     (if path = [] then Inl AssertionError else getinfo_link (home_fs s) ''.'')"

subsection \<open>Python's text and time helpers used by the module\<close>

text \<open>
  \<^verbatim>\<open>str\<close> of an integer, the \<^verbatim>\<open>%Ns\<close> and \<^verbatim>\<open>%-Ns\<close> conversions of the \<^verbatim>\<open>%\<close>
  operator (pad with blanks on the left, respectively on the right, never truncate), and a
  dictionary read that raises \<^verbatim>\<open>KeyError\<close> on a missing key.
\<close>

definition digit_char :: "nat \<Rightarrow> char" where
  "digit_char d = ''0123456789'' ! d"

function digits :: "nat \<Rightarrow> string" where
  "digits n = (if n < 10 then [digit_char n] else digits (n div 10) @ [digit_char (n mod 10)])"
  by pat_completeness auto
termination
  by (relation "measure id") auto

declare digits.simps [simp del]

definition str_int :: "int \<Rightarrow> string" where
  "str_int i = (if i < 0 then CHR ''-'' # digits (nat (- i)) else digits (nat i))"

definition rjust :: "nat \<Rightarrow> string \<Rightarrow> string" where
  "rjust w s = replicate (w - length s) CHR '' '' @ s"

definition ljust :: "nat \<Rightarrow> string \<Rightarrow> string" where
  "ljust w s = s @ replicate (w - length s) CHR '' ''"

definition getitem :: "('k \<rightharpoonup> 'v) \<Rightarrow> ('k \<Rightarrow> string) \<Rightarrow> 'k \<Rightarrow> error + 'v" where
  "getitem d show_key k = (case d k of None \<Rightarrow> Inl (KeyError (show_key k)) | Some v \<Rightarrow> Inr v)"

text \<open>
  \<^verbatim>\<open>st[['st_mtime']]\<close> reads the dictionary at a key that is a list. A list is not
  hashable, so the read raises \<^verbatim>\<open>TypeError\<close> before any key is compared, whatever the
  dictionary holds.
\<close>

definition getitem_list_key :: "(string \<rightharpoonup> int) \<Rightarrow> string list \<Rightarrow> error + int" where
  "getitem_list_key d ks = Inl TypeError"

text \<open>Sequencing of calls that may raise: the first exception ends the computation.\<close>

definition raising :: "error + 'a \<Rightarrow> ('a \<Rightarrow> error + 'b) \<Rightarrow> error + 'b" where
  "raising r k = (case r of Inl e \<Rightarrow> Inl e | Inr v \<Rightarrow> k v)"

text \<open>
  \<^verbatim>\<open>stat.filemode\<close>: the type character from the \<^verbatim>\<open>S_IFMT\<close> bits, then \<^verbatim>\<open>rwx\<close> for
  user, group and others with the set-uid, set-gid and sticky variants. A mode outside
  the range of \<^verbatim>\<open>mode_t\<close> (32 bits, unsigned) raises \<^verbatim>\<open>OverflowError\<close>.
\<close>

definition S_IFLNK :: int where "S_IFLNK = 40960"

definition filetype :: "int \<Rightarrow> char" where
  "filetype mode =
     (let t = mode AND 61440 in
      if t = 32768 then CHR ''-''
      else if t = 16384 then CHR ''d''
      else if t = 40960 then CHR ''l''
      else if t = 24576 then CHR ''b''
      else if t = 8192 then CHR ''c''
      else if t = 4096 then CHR ''p''
      else if t = 49152 then CHR ''s''
      else CHR ''?'')"

definition permbit :: "int \<Rightarrow> int \<Rightarrow> char \<Rightarrow> char" where
  "permbit mode b c = (if mode AND b \<noteq> 0 then c else CHR ''-'')"

definition execbit :: "int \<Rightarrow> int \<Rightarrow> int \<Rightarrow> char \<Rightarrow> char \<Rightarrow> char" where
  "execbit mode special x lower upper =
     (if mode AND special \<noteq> 0 then (if mode AND x \<noteq> 0 then lower else upper)
      else (if mode AND x \<noteq> 0 then CHR ''x'' else CHR ''-''))"

definition fileperm :: "int \<Rightarrow> string" where
  "fileperm mode =
     [filetype mode,
      permbit mode 256 CHR ''r'', permbit mode 128 CHR ''w'',
      execbit mode 2048 64 CHR ''s'' CHR ''S'',
      permbit mode 32 CHR ''r'', permbit mode 16 CHR ''w'',
      execbit mode 1024 8 CHR ''s'' CHR ''S'',
      permbit mode 4 CHR ''r'', permbit mode 2 CHR ''w'',
      execbit mode 512 1 CHR ''t'' CHR ''T'']"

definition filemode :: "int \<Rightarrow> error + string" where
  "filemode mode =
     (if mode < 0 \<or> 4294967295 < mode then Inl OverflowError else Inr (fileperm mode))"

text \<open>
  \<^verbatim>\<open>time.gmtime\<close>: the UTC calendar fields of a count of seconds since 1970-01-01
  (proleptic Gregorian calendar; \<open>div\<close> on \<open>int\<close> rounds down, as the calendar needs).
  A count outside the range of \<^verbatim>\<open>time_t\<close> (64 bits, signed) raises \<^verbatim>\<open>OverflowError\<close>;
  a year that the C structure cannot hold (the year less 1900 in a signed 32-bit field)
  raises \<^verbatim>\<open>OSError\<close>.
\<close>

record struct_time =
  tm_year :: int
  tm_mon :: int
  tm_mday :: int
  tm_hour :: int
  tm_min :: int
  tm_sec :: int

definition year_of_era :: "int \<Rightarrow> int" where
  "year_of_era doe = (doe - doe div 1460 + doe div 36524 - doe div 146096) div 365"

definition day_of_year :: "int \<Rightarrow> int \<Rightarrow> int" where
  "day_of_year doe yoe = doe - (365 * yoe + yoe div 4 - yoe div 100)"

definition civil :: "int \<Rightarrow> int \<Rightarrow> int \<Rightarrow> int \<Rightarrow> int \<times> int \<times> int" where
  "civil era yoe doy mp =
     (if mp < 10
      then (yoe + era * 400 + (if mp + 3 \<le> 2 then 1 else 0), mp + 3,
            doy - (153 * mp + 2) div 5 + 1)
      else (yoe + era * 400 + (if mp - 9 \<le> 2 then 1 else 0), mp - 9,
            doy - (153 * mp + 2) div 5 + 1))"

definition civil_from_era :: "int \<Rightarrow> int \<Rightarrow> int \<times> int \<times> int" where
  "civil_from_era era doe =
     civil era (year_of_era doe) (day_of_year doe (year_of_era doe))
       ((5 * day_of_year doe (year_of_era doe) + 2) div 153)"

definition civil_from_days :: "int \<Rightarrow> int \<times> int \<times> int" where
  "civil_from_days days =
     civil_from_era ((days + 719468) div 146097) ((days + 719468) mod 146097)"

definition broken_down :: "int \<Rightarrow> struct_time" where
  "broken_down secs =
     (case civil_from_days (secs div 86400) of
        (y, m, d) \<Rightarrow>
          \<lparr> tm_year = y, tm_mon = m, tm_mday = d,
            tm_hour = (secs mod 86400) div 3600,
            tm_min = ((secs mod 86400) mod 3600) div 60,
            tm_sec = (secs mod 86400) mod 60 \<rparr>)"

definition gmtime :: "int \<Rightarrow> error + struct_time" where
  "gmtime secs =
     (if secs < - 9223372036854775808 \<or> 9223372036854775807 < secs then Inl OverflowError
      else if tm_year (broken_down secs) - 1900 < - 2147483648 \<or>
              2147483647 < tm_year (broken_down secs) - 1900 then Inl OSError
      else Inr (broken_down secs))"

text \<open>
  \<^verbatim>\<open>time.strftime\<close> for the directives the module's format strings use: \<^verbatim>\<open>%d\<close>,
  \<^verbatim>\<open>%m\<close>, \<^verbatim>\<open>%H\<close>, \<^verbatim>\<open>%M\<close>, \<^verbatim>\<open>%S\<close> (two digits, zero padded) and \<^verbatim>\<open>%Y\<close> (the year in
  decimal, which is four digits for the years 1000 to 9999); every other character is
  copied.
\<close>

definition pad2 :: "int \<Rightarrow> string" where
  "pad2 n = (if 0 \<le> n \<and> n < 10 then CHR ''0'' # str_int n else str_int n)"

definition directive :: "char \<Rightarrow> struct_time \<Rightarrow> string" where
  "directive d t =
     (if d = CHR ''d'' then pad2 (tm_mday t)
      else if d = CHR ''m'' then pad2 (tm_mon t)
      else if d = CHR ''H'' then pad2 (tm_hour t)
      else if d = CHR ''M'' then pad2 (tm_min t)
      else if d = CHR ''S'' then pad2 (tm_sec t)
      else if d = CHR ''Y'' then str_int (tm_year t)
      else [CHR ''%'', d])"

fun strftime :: "string \<Rightarrow> struct_time \<Rightarrow> string" where
  "strftime [] t = []"
| "strftime [c] t = [c]"
| "strftime (c # d # fs) t =
     (if c = CHR ''%'' then directive d t @ strftime fs t else c # strftime (d # fs) t)"

text \<open>
  Modelled from the spec: \<^verbatim>\<open>months_map\<close> of \<^verbatim>\<open>conpot.protocols.ftp.ftp_utils\<close>, which is
  not among the sources: the fixed 12-entry table of month abbreviations.
\<close>

definition months_map :: "int \<rightharpoonup> string" where
  "months_map = map_of
     [(1, ''Jan''), (2, ''Feb''), (3, ''Mar''), (4, ''Apr''), (5, ''May''), (6, ''Jun''),
      (7, ''Jul''), (8, ''Aug''), (9, ''Sep''), (10, ''Oct''), (11, ''Nov''), (12, ''Dec'')]"

subsection \<open>AbstractFS.format_list\<close>

text \<open>
  \<^verbatim>\<open>"%s %3s %-8s %-8s %8s %s %s\r\n" % (permission, nlinks, uname, gname, size, mtimestr, basename)\<close>
\<close>

definition listing_line ::
  "string \<Rightarrow> int \<Rightarrow> string \<Rightarrow> string \<Rightarrow> int \<Rightarrow> string \<Rightarrow> string \<Rightarrow> string" where
  "listing_line permission nlinks uname gname fsize mtimestr basename =
     permission @ '' '' @ rjust 3 (str_int nlinks) @ '' '' @ ljust 8 uname @ '' '' @
     ljust 8 gname @ '' '' @ rjust 8 (str_int fsize) @ '' '' @ mtimestr @ '' '' @ basename @
     [CHR 0x0D, CHR 0x0A]"

definition SIX_MONTHS :: int where
  "SIX_MONTHS = 180 * 24 * 60 * 60"

text \<open>
  The choice of the format string and \<^verbatim>\<open>mtimestr\<close>, given the value \<open>age\<close> of the
  subtraction \<^verbatim>\<open>now - ...\<close> and the broken-down \<^verbatim>\<open>mtime\<close>.
\<close>

definition fmtstr_of :: "int \<Rightarrow> string" where
  "fmtstr_of age = (if age > SIX_MONTHS then ''%d  %Y'' else ''%d %H:%M'')"

definition mtimestr_of :: "int \<Rightarrow> struct_time \<Rightarrow> error + string" where
  "mtimestr_of age mtime =
     raising (getitem months_map str_int (tm_mon mtime))
       (\<lambda>mon. Inr (mon @ '' '' @ strftime (fmtstr_of age) mtime))"

text \<open>
  One pass of the \<^verbatim>\<open>for basename in listing\<close> body: the lines it yields (none or one),
  or the exception that leaves the generator. The \<^verbatim>\<open>yield\<close> is inside the
  \<^verbatim>\<open>if (st['st_mode'] & 61440) == stat.S_IFLNK\<close> block, so an entry that is not a
  symbolic link yields nothing. \<^verbatim>\<open>basename + " -> " + self.readlink(file)\<close> raises
  \<^verbatim>\<open>TypeError\<close> when \<^verbatim>\<open>readlink\<close> returns \<^verbatim>\<open>None\<close>.

  The body is written once, with the dictionary read \<^verbatim>\<open>st[['st_mtime']]\<close> as the
  parameter \<open>subscript\<close>; \<open>format_entry\<close>, the pass as Python runs it, is the body with
  Python's read \<open>getitem_list_key\<close>. What the statements after the read do can so be
  stated for every outcome of the read.
\<close>

definition format_entry_with ::
  "((string \<rightharpoonup> int) \<Rightarrow> string list \<Rightarrow> error + int) \<Rightarrow>
   abstract_fs \<Rightarrow> int \<Rightarrow> string \<Rightarrow> string \<Rightarrow> error + string list" where
  "format_entry_with subscript s now basedir basename =
     (let file = basedir @ basename in
      raising (stat s file) (\<lambda>st.
      raising (getitem st id ''st_mode'') (\<lambda>mode.
      raising (filemode mode) (\<lambda>permission.
      raising (getitem st id ''st_nlink'') (\<lambda>nlinks.
      raising (getitem st id ''st_size'') (\<lambda>fsize.
      let uname = ''owner''; gname = ''group'' in
      raising (getitem st id ''st_mtime'') (\<lambda>secs.
      raising (gmtime secs) (\<lambda>mtime.
      raising (subscript st [''st_mtime'']) (\<lambda>m.
      raising (mtimestr_of (now - m) mtime) (\<lambda>mtimestr.
      if mode AND 61440 = S_IFLNK then
        raising (readlink s file) (\<lambda>target.
          (case target of
             None \<Rightarrow> Inl TypeError
           | Some t \<Rightarrow>
               Inr [listing_line permission nlinks uname gname fsize mtimestr
                      (basename @ '' -> '' @ t)]))
      else Inr []))))))))))"

definition format_entry :: "abstract_fs \<Rightarrow> int \<Rightarrow> string \<Rightarrow> string \<Rightarrow> error + string list" where
  "format_entry s now basedir basename =
     format_entry_with getitem_list_key s now basedir basename"

text \<open>
  The generator, consumed to its end: the lines yielded, in order, and the exception that
  ended it, if any. An exception in the pass for one entry ends the generator; the lines
  yielded before it stay yielded.
\<close>

fun format_list :: "abstract_fs \<Rightarrow> int \<Rightarrow> string \<Rightarrow> string list \<Rightarrow> string list \<times> error option" where
  "format_list s now basedir [] = ([], None)"
| "format_list s now basedir (basename # listing) =
     (case format_entry s now basedir basename of
        Inl e \<Rightarrow> ([], Some e)
      | Inr ls \<Rightarrow> (case format_list s now basedir listing of (ys, r) \<Rightarrow> (ls @ ys, r)))"

text \<open>
  What the first \<^verbatim>\<open>next()\<close> on the generator gives: \<open>Inr (Some line)\<close> for a line,
  \<open>Inr None\<close> for the end of the generator, \<open>Inl e\<close> for an exception.
\<close>

definition first_next :: "string list \<times> error option \<Rightarrow> error + string option" where
  "first_next g =
     (case g of
        (l # ls, r) \<Rightarrow> Inr (Some l)
      | ([], Some e) \<Rightarrow> Inl e
      | ([], None) \<Rightarrow> Inr None)"

subsection \<open>AbstractFS.__init__ and _add_protocol\<close>

text \<open>
  Modelled from the spec: \<^verbatim>\<open>makedir\<close> (exclusive creation: \<^verbatim>\<open>DirectoryExists\<close> when the
  path is the root or is present, \<^verbatim>\<open>ResourceNotFound\<close> when its parent is not a directory)
  and \<^verbatim>\<open>mirror.mirror\<close> (every entry of the source appears under the destination
  directory, with the same relative path and the same resource) of the \<^verbatim>\<open>fs\<close> package.
  The stat fields of the new directory are the host's and are left empty.
\<close>

definition new_directory :: resource where
  "new_directory = \<lparr> rkind = Directory, rstat = [], rtarget = None, rdata = [] \<rparr>"



definition mirror :: "store \<Rightarrow> store \<Rightarrow> string list \<Rightarrow> store" where
  "mirror src t sub_dir = map (\<lambda>(p, r). (sub_dir @ p, r)) src @ t"



subsection \<open>A concrete jail\<close>

text \<open>
  A source directory with a sub-directory, two regular files and a symbolic link, and the
  jail of protocol \<^verbatim>\<open>ftp\<close> made from it. \<^verbatim>\<open>music.mp3\<close> has mode \<^verbatim>\<open>0100644\<close>, one link,
  7045120 bytes and the modification time 2022-09-02 03:47:00 UTC; its owner on the host
  is user 1000 of group 1000.
\<close>

definition stat_of :: "int \<Rightarrow> int \<Rightarrow> int \<Rightarrow> int \<Rightarrow> (string \<times> int) list" where
  "stat_of mode nlink sz mtime =
     [(''st_mode'', mode), (''st_nlink'', nlink), (''st_size'', sz), (''st_mtime'', mtime),
      (''st_uid'', 1000), (''st_gid'', 1000)]"

definition example_src :: store where
  "example_src =
     [([''docs''], \<lparr> rkind = Directory, rstat = stat_of 16877 2 4096 1662090000,
                     rtarget = None, rdata = [] \<rparr>),
      ([''readme.txt''], \<lparr> rkind = RegularFile, rstat = stat_of 33188 1 3 1662090000,
                     rtarget = None, rdata = [104, 105, 10] \<rparr>),
      ([''link''], \<lparr> rkind = SymLink, rstat = stat_of 41471 1 10 1662090000,
                     rtarget = Some ''readme.txt'', rdata = [] \<rparr>),
      ([''music.mp3''], \<lparr> rkind = RegularFile, rstat = stat_of 33188 1 7045120 1662090420,
                     rtarget = None, rdata = [] \<rparr>)]"


definition example_store :: store where
  "example_store = mirror example_src [([''ftp''], new_directory)] [''ftp'']"

definition example_jail :: abstract_fs where
  "example_jail =
     \<lparr> root = ''/'', home = ''/ftp'', cwd = ''/ftp'', root_fs = example_store,
       home_fs = SubFS example_store [''ftp''], data_fs = [] \<rparr>"

subsection \<open>Containment, in the words of the specification\<close>

text \<open>
  A path resolves at or below \<open>h\<close> when both canonicalise and the components of \<open>h\<close>
  begin the components of the path.
\<close>

definition at_or_below :: "string \<Rightarrow> string \<Rightarrow> bool" where
  "at_or_below h p =
     (case normpath h of
        None \<Rightarrow> False
      | Some hs \<Rightarrow> (case normpath p of None \<Rightarrow> False | Some ps \<Rightarrow> prefix hs ps))"

subsection \<open>sanitize_file_name\<close>

text \<open>
  \<^verbatim>\<open>datetime.now()\<close> is the parameter \<open>now\<close>, \<^verbatim>\<open>slugify\<close> (package \<^verbatim>\<open>slugify\<close>) the
  parameter \<open>slugify\<close>. \<^verbatim>\<open>datetime.strftime\<close> formats the time tuple of the reading;
  the microseconds are not printed.
\<close>

record datetime =
  year :: int
  month :: int
  day :: int
  hour :: int
  minute :: int
  second :: int
  microsecond :: int

definition timetuple :: "datetime \<Rightarrow> struct_time" where
  "timetuple d =
     \<lparr> tm_year = year d, tm_mon = month d, tm_mday = day d,
       tm_hour = hour d, tm_min = minute d, tm_sec = second d \<rparr>"

definition sanitize_file_name :: "(string \<Rightarrow> string) \<Rightarrow> datetime \<Rightarrow> string \<Rightarrow> string" where
  "sanitize_file_name slugify now name0 =
     strftime ''%Y-%m-%d %H:%M:%S'' (timetuple now) @ '' - '' @ slugify name0"

text \<open>
  The readings \<^verbatim>\<open>datetime\<close> can hold (\<^verbatim>\<open>MINYEAR = 1\<close>, \<^verbatim>\<open>MAXYEAR = 9999\<close>), and the
  position of a reading on the time line in microseconds (day number of the proleptic
  Gregorian calendar, then the time of day), by which the distance of two readings is
  measured.
\<close>

definition valid_datetime :: "datetime \<Rightarrow> bool" where
  "valid_datetime d =
     (1 \<le> year d \<and> year d \<le> 9999 \<and> 1 \<le> month d \<and> month d \<le> 12 \<and>
      1 \<le> day d \<and> day d \<le> 31 \<and> 0 \<le> hour d \<and> hour d < 24 \<and>
      0 \<le> minute d \<and> minute d < 60 \<and> 0 \<le> second d \<and> second d < 60 \<and>
      0 \<le> microsecond d \<and> microsecond d < 1000000)"

definition days_from_era :: "int \<Rightarrow> int \<Rightarrow> int \<Rightarrow> int" where
  "days_from_era y' mp d =
     (y' div 400) * 146097 +
     ((y' mod 400) * 365 + (y' mod 400) div 4 - (y' mod 400) div 100 +
      ((153 * mp + 2) div 5 + d - 1)) - 719468"

definition days_from_civil :: "int \<Rightarrow> int \<Rightarrow> int \<Rightarrow> int" where
  "days_from_civil y m d =
     days_from_era (if m \<le> 2 then y - 1 else y) (if m > 2 then m - 3 else m + 9) d"

definition microseconds_of :: "datetime \<Rightarrow> int" where
  "microseconds_of d =
     (((days_from_civil (year d) (month d) (day d) * 24 + hour d) * 60 + minute d) * 60
        + second d) * 1000000 + microsecond d"

subsection \<open>FileWriter\<close>

text \<open>
  The host's file tree, as \<^verbatim>\<open>open(name, 'xb')\<close> sees it: directories and regular files
  by their canonical component lists, and the working directory of the process. The
  resolution of a name follows POSIX: a name with a null byte is refused by Python
  (\<^verbatim>\<open>ValueError\<close>); the empty name does not exist (\<^verbatim>\<open>FileNotFoundError\<close>); a name of more
  than 4095 bytes or a component of more than 255 bytes is too long (\<^verbatim>\<open>OSError\<close>); a name
  that begins with a slash starts at the root, any other at the working directory; empty
  components and \<^verbatim>\<open>.\<close> stay, \<^verbatim>\<open>..\<close> goes to the parent; every component before
  the last must be an existing directory (\<^verbatim>\<open>FileNotFoundError\<close> when it is absent,
  \<^verbatim>\<open>NotADirectoryError\<close> when it is a file); a name that ends in a slash, in \<^verbatim>\<open>.\<close> or in
  \<^verbatim>\<open>..\<close> names a directory, which cannot be created as a file (\<^verbatim>\<open>IsADirectoryError\<close>).
  The host has no symbolic links on these paths, the process may search and write every
  directory, and the device has room, so that \<^verbatim>\<open>write\<close>, \<^verbatim>\<open>flush\<close> and \<^verbatim>\<open>close\<close> do
  not fail on an open file.
\<close>

datatype node = HostDir | HostFile bytes

record host =
  workdir :: "string list"
  nodes :: "string list \<rightharpoonup> node"




text \<open>
  \<^verbatim>\<open>open(name, 'xb')\<close> creates the file at the resolved path and fails with
  \<^verbatim>\<open>FileExistsError\<close> when a file or directory is there. The file object is buffered:
  \<^verbatim>\<open>write\<close> appends to the buffer and returns the number of bytes taken, \<^verbatim>\<open>flush\<close> moves
  the buffer to the file, \<^verbatim>\<open>close\<close> flushes and closes; \<^verbatim>\<open>write\<close> and \<^verbatim>\<open>flush\<close> on a
  closed file raise \<^verbatim>\<open>ValueError\<close>.
\<close>

record file_object =
  fname :: string
  fkey :: "string list"
  buffer :: bytes
  closed :: bool

record file_writer =
  name :: string
  f :: file_object


definition contents :: "host \<Rightarrow> string list \<Rightarrow> bytes" where
  "contents h key = (case nodes h key of Some (HostFile b) \<Rightarrow> b | _ \<Rightarrow> [])"

definition file_flush :: "host \<Rightarrow> file_object \<Rightarrow> error + host \<times> file_object" where
  "file_flush h fo =
     (if closed fo then Inl ValueError
      else Inr (h\<lparr>nodes := (nodes h)(fkey fo \<mapsto> HostFile (contents h (fkey fo) @ buffer fo))\<rparr>,
                fo\<lparr>buffer := []\<rparr>))"



definition flush_writer :: "host \<Rightarrow> file_writer \<Rightarrow> error + host \<times> file_writer" where
  "flush_writer h w = raising (file_flush h (f w)) (\<lambda>(h', fo). Inr (h', w\<lparr>f := fo\<rparr>))"

definition write_chunk :: "file_writer \<Rightarrow> bytes \<Rightarrow> error + int \<times> file_writer" where
  "write_chunk w data =
     (if closed (f w) then Inl ValueError
      else Inr (int (length data), w\<lparr>f := (f w)\<lparr>buffer := buffer (f w) @ data\<rparr>\<rparr>))"






text \<open>Clock readings on 2024-03-05 at 07:08, with the given second and microsecond.\<close>

definition example_reading :: "int \<Rightarrow> int \<Rightarrow> datetime" where
  "example_reading s us =
     \<lparr> year = 2024, month = 3, day = 5, hour = 7, minute = 8, second = s, microsecond = us \<rparr>"

text \<open>The value of a decimal numeral, digit by digit.\<close>

definition digit_val :: "char \<Rightarrow> nat" where
  "digit_val c = of_char c - 48"

definition decimal_val :: "string \<Rightarrow> nat" where
  "decimal_val cs = foldl (\<lambda>a c. 10 * a + digit_val c) 0 cs"

text \<open>2022-09-02 03:47:00 UTC, the modification time of \<^verbatim>\<open>music.mp3\<close>, broken down.\<close>

definition fixture_time :: struct_time where
  "fixture_time =
     \<lparr> tm_year = 2022, tm_mon = 9, tm_mday = 2, tm_hour = 3, tm_min = 47, tm_sec = 0 \<rparr>"

text \<open>
  The concrete jail over a store that reports the link target \<^verbatim>\<open>readme.txt\<close> for every
  path, and a dictionary read that gives the link's modification time.
\<close>

definition linked_jail :: abstract_fs where
  "linked_jail =
     example_jail\<lparr>home_fs := (home_fs example_jail)\<lparr>getinfo_link := (\<lambda>p. Inr (Some ''readme.txt''))\<rparr>\<rparr>"

definition read_mtime :: "(string \<rightharpoonup> int) \<Rightarrow> string list \<Rightarrow> error + int" where
  "read_mtime d ks = Inr 1662090000"

subsection \<open>Stores that differ in the owner fields only\<close>

text \<open>
  Two stat dictionaries that differ at most in \<^verbatim>\<open>st_uid\<close> and \<^verbatim>\<open>st_gid\<close>, and two stores
  whose answers differ at most so.
\<close>

definition same_but_owner :: "(string \<rightharpoonup> int) \<Rightarrow> (string \<rightharpoonup> int) \<Rightarrow> bool" where
  "same_but_owner d d' = (d(''st_uid'' := None, ''st_gid'' := None) = d'(''st_uid'' := None, ''st_gid'' := None))"

definition same_store_but_owner :: "subfs \<Rightarrow> subfs \<Rightarrow> bool" where
  "same_store_but_owner a b =
     (getinfo_link a = getinfo_link b \<and>
      (\<forall>p. rel_sum (=) same_but_owner (getinfo_stat a p) (getinfo_stat b p)))"

text \<open>The same jail on a host where every file belongs to user 0 of group 0.\<close>

definition as_root :: "subfs \<Rightarrow> subfs" where
  "as_root a =
     a\<lparr>getinfo_stat := (\<lambda>p. case getinfo_stat a p of
                             Inl e \<Rightarrow> Inl e
                           | Inr d \<Rightarrow> Inr (d(''st_uid'' \<mapsto> 0, ''st_gid'' \<mapsto> 0)))\<rparr>"

section \<open>Theorems\<close>

subsection \<open>The concrete jail, evaluated\<close>

lemmas example_defs =
  example_jail_def example_store_def example_src_def mirror_def new_directory_def stat_of_def
  SubFS_def store_getinfo_def normpath_def

lemma example_isdir_parent: "isdir (home_fs example_jail) ''/ftp/..'' = Inr True"
  by (simp add: example_defs)

lemma example_isdir_home_name: "isdir (home_fs example_jail) ''/ftp'' = Inr False"
  by (simp add: example_defs)

lemma example_isdir_missing: "isdir (home_fs example_jail) ''/ftp/missing'' = Inr False"
  by (simp add: example_defs)

lemma example_isdir_nosuchdir: "isdir (home_fs example_jail) ''/ftp/nosuchdir'' = Inr False"
  by (simp add: example_defs)

lemma example_isdir_via_parent: "isdir (home_fs example_jail) ''/ftp/../docs'' = Inr True"
  by (simp add: example_defs)

lemma example_cwd: "cwd example_jail = ''/ftp''" and example_home: "home example_jail = ''/ftp''"
  by (simp_all add: example_jail_def)


subsection \<open>chdir\<close>

lemma chdir_empty: "chdir s [] = Inl AssertionError"
  by (simp add: chdir_def)

lemma chdir_cases:
  assumes "chdir s path = Inr s'"
  shows "s' = s \<or> s' = s\<lparr>cwd := cwd s @ path\<rparr>"
  using assms by (auto simp: chdir_def split: if_splits sum.splits bool.splits)

text \<open>
  What string concatenation does keep: the text of \<^verbatim>\<open>_home\<close> stays an initial segment
  of the text of \<^verbatim>\<open>_cwd\<close>, and \<^verbatim>\<open>_home\<close> itself never changes.
\<close>

lemma chdir_text_prefix:
  assumes "chdir s path = Inr s'" and "prefix (home s) (cwd s)"
  shows "prefix (home s') (cwd s') \<and> home s' = home s"
  using chdir_cases [OF assms(1)] assms(2) by auto

lemma chdir_all_text_prefix:
  "chdir_all s ps = Inr s' \<Longrightarrow> prefix (home s) (cwd s) \<Longrightarrow>
     prefix (home s') (cwd s') \<and> home s' = home s"
proof (induction ps arbitrary: s)
  case Nil
  then show ?case by simp
next
  case (Cons p ps)
  from Cons.prems(1) obtain s1 where s1: "chdir s p = Inr s1" and rest: "chdir_all s1 ps = Inr s'"
    by (auto split: sum.splits)
  from chdir_text_prefix [OF s1 Cons.prems(2)]
  have p1: "prefix (home s1) (cwd s1)" and h1: "home s1 = home s" by blast+
  from Cons.IH [OF rest p1] h1 show ?case by auto
qed

text \<open>
  C1 (containment). In the fresh jail of protocol \<^verbatim>\<open>ftp\<close> the single call
  \<^verbatim>\<open>chdir('/..')\<close> is accepted, because the store resolves \<^verbatim>\<open>/ftp/..\<close> to its own root
  directory, and leaves \<^verbatim>\<open>getcwd() = '/ftp/..'\<close>: a path that resolves to \<^verbatim>\<open>/\<close>, the
  parent of home \<^verbatim>\<open>/ftp\<close>, and so is not at or below home. The class documentation says
  the user cannot escape the home directory.
\<close>

theorem chdir_escapes_home:
  "chdir_all example_jail [''/..''] = Inr (example_jail\<lparr>cwd := ''/ftp/..''\<rparr>) \<and>
   getcwd (example_jail\<lparr>cwd := ''/ftp/..''\<rparr>) = ''/ftp/..'' \<and>
   normpath ''/ftp/..'' = Some [] \<and>
   normpath (home example_jail) = Some [''ftp''] \<and>
   at_or_below (home example_jail) (cwd example_jail) \<and>
   \<not> at_or_below (home example_jail) (getcwd (example_jail\<lparr>cwd := ''/ftp/..''\<rparr>))"
  by (simp add: chdir_def example_isdir_parent example_cwd example_home getcwd_def
      at_or_below_def normpath_def)

text \<open>The same escape with an argument that does not begin with a slash.\<close>

lemma chdir_escapes_home_relative:
  "chdir example_jail ''x/..'' = Inr (example_jail\<lparr>cwd := ''/ftpx/..''\<rparr>) \<and>
   \<not> at_or_below ''/ftp'' ''/ftpx/..''"
  by (simp add: chdir_def example_cwd at_or_below_def) (simp add: example_defs)

text \<open>
  C2 (the contract of chdir). On a target that is not a directory of the jail,
  \<^verbatim>\<open>chdir('/nosuchdir')\<close> returns normally and raises nothing; on the accepted argument
  \<^verbatim>\<open>'/../docs'\<close> the working directory becomes the concatenation \<^verbatim>\<open>/ftp/../docs\<close>, which
  is neither canonical nor at or below home.
\<close>

theorem chdir_no_error_no_canonical_form:
  "isdir (home_fs example_jail) (cwd example_jail @ ''/nosuchdir'') = Inr False \<and>
   chdir example_jail ''/nosuchdir'' = Inr example_jail \<and>
   chdir example_jail ''/../docs'' = Inr (example_jail\<lparr>cwd := ''/ftp/../docs''\<rparr>) \<and>
   normpath ''/ftp/../docs'' = Some [''docs''] \<and>
   \<not> at_or_below (home example_jail) ''/ftp/../docs''"
  by (simp add: chdir_def example_isdir_nosuchdir example_isdir_via_parent example_cwd
      example_home at_or_below_def normpath_def)

text \<open>
  C10 as stated (every target that is not a directory is a silent no-op) fails at the empty
  path: the target \<^verbatim>\<open>/ftp\<close> is not a directory of the jail, and the call raises
  \<^verbatim>\<open>AssertionError\<close>.
\<close>

theorem chdir_empty_path_raises:
  "isdir (home_fs example_jail) (cwd example_jail @ []) = Inr False \<and>
   chdir example_jail [] = Inl AssertionError"
  by (simp add: chdir_def example_isdir_home_name example_cwd)

text \<open>
  C10, amended: for a non-empty path whose target \<^verbatim>\<open>_cwd + path\<close> the store reports not
  to be a directory, \<^verbatim>\<open>chdir\<close> returns normally, raises nothing and leaves the whole
  state, the working directory included, as it was.
\<close>

theorem chdir_silent_noop:
  assumes "path \<noteq> []" and "isdir (home_fs s) (cwd s @ path) = Inr False"
  shows "chdir s path = Inr s \<and> (\<forall>s'. chdir s path = Inr s' \<longrightarrow> getcwd s' = getcwd s)"
  using assms by (simp add: chdir_def)

theorem chdir_silent_noop_witness:
  "''/missing'' \<noteq> [] \<and>
   isdir (home_fs example_jail) (cwd example_jail @ ''/missing'') = Inr False \<and>
   chdir example_jail ''/missing'' = Inr example_jail \<and>
   getcwd example_jail = ''/ftp''"
proof -
  have ne: "''/missing'' \<noteq> []" by simp
  have nd: "isdir (home_fs example_jail) (cwd example_jail @ ''/missing'') = Inr False"
    by (simp add: example_cwd example_isdir_missing)
  from chdir_silent_noop [OF ne nd] nd show ?thesis
    by (simp add: getcwd_def example_cwd)
qed

subsection \<open>Text and time helpers, evaluated\<close>

lemmas text_defs = str_int_def digits.simps digit_char_def rjust_def ljust_def pad2_def

lemma replicate_numeral: "replicate (numeral k) x = x # replicate (pred_numeral k) x"
  by (simp add: numeral_eq_Suc)

lemma filemode_regular_0644: "filemode 33188 = Inr ''-rw-r--r--''"
  by (simp add: filemode_def fileperm_def filetype_def permbit_def execbit_def)

lemma broken_down_fixture:
  "broken_down 1662090420 =
     \<lparr> tm_year = 2022, tm_mon = 9, tm_mday = 2, tm_hour = 3, tm_min = 47, tm_sec = 0 \<rparr>"
  by (simp add: broken_down_def civil_from_days_def civil_from_era_def civil_def year_of_era_def
      day_of_year_def)

lemma gmtime_fixture:
  "gmtime 1662090420 =
     Inr \<lparr> tm_year = 2022, tm_mon = 9, tm_mday = 2, tm_hour = 3, tm_min = 47, tm_sec = 0 \<rparr>"
  by (simp add: gmtime_def broken_down_fixture)

lemma filemode_in_range:
  assumes "0 \<le> m" and "m \<le> 4294967295"
  shows "filemode m = Inr (fileperm m)"
  using assms by (simp add: filemode_def)

lemma gmtime_link_time: "gmtime 1662090000 = Inr (broken_down 1662090000)"
proof -
  have "tm_year (broken_down 1662090000) = 2022"
    by (simp add: broken_down_def civil_from_days_def civil_from_era_def civil_def
        year_of_era_def day_of_year_def)
  then show ?thesis by (simp add: gmtime_def)
qed

lemma strftime_old: "strftime ''%d  %Y'' t = pad2 (tm_mday t) @ ''  '' @ str_int (tm_year t)"
  by (simp add: directive_def)

lemma strftime_recent:
  "strftime ''%d %H:%M'' t = pad2 (tm_mday t) @ '' '' @ pad2 (tm_hour t) @ '':'' @ pad2 (tm_min t)"
  by (simp add: directive_def)

lemma strftime_sanitize:
  "strftime ''%Y-%m-%d %H:%M:%S'' t =
     str_int (tm_year t) @ ''-'' @ pad2 (tm_mon t) @ ''-'' @ pad2 (tm_mday t) @ '' '' @
     pad2 (tm_hour t) @ '':'' @ pad2 (tm_min t) @ '':'' @ pad2 (tm_sec t)"
  by (simp add: directive_def)

lemma fixture_texts:
  "pad2 2 = ''02''" "pad2 3 = ''03''" "pad2 47 = ''47''" "str_int 2022 = ''2022''"
  "str_int 1 = ''1''" "str_int 7045120 = ''7045120''"
  by (simp_all add: text_defs)

lemma months_map_Sep: "months_map 9 = Some ''Sep''"
  by (simp add: months_map_def)

lemma mtimestr_of_month:
  assumes "months_map (tm_mon t) = Some mon"
  shows "mtimestr_of age t = Inr (mon @ '' '' @ strftime (fmtstr_of age) t)"
  using assms by (simp add: mtimestr_of_def raising_def getitem_def)

lemma listing_line_fixture:
  "listing_line ''-rw-r--r--'' 1 ''owner'' ''group'' 7045120 ''Sep 02  2022'' ''music.mp3'' =
     ''-rw-r--r--   1 owner    group     7045120 Sep 02  2022 music.mp3'' @ [CHR 0x0D, CHR 0x0A]"
  by (simp add: listing_line_def fixture_texts rjust_def ljust_def replicate_numeral)

subsection \<open>format_list\<close>

lemmas format_entry_defs = format_entry_def format_entry_with_def raising_def getitem_def

lemma format_entry_raises: "\<exists>e. format_entry s now basedir b = Inl e"
  by (auto simp: format_entry_defs getitem_list_key_def Let_def split: sum.splits)

lemma format_entry_TypeError:
  assumes "stat s (basedir @ b) = Inr st"
    and "st ''st_mode'' = Some m" and "filemode m = Inr p"
    and "st ''st_nlink'' \<noteq> None" and "st ''st_size'' \<noteq> None"
    and "st ''st_mtime'' = Some t" and "gmtime t = Inr tm"
  shows "format_entry s now basedir b = Inl TypeError"
  using assms
  by (auto simp: format_entry_defs getitem_list_key_def Let_def)

text \<open>The exception of one pass, step by step in the order of the loop body.\<close>

lemma format_entry_exception:
  "format_entry s now basedir b =
     Inl (case stat s (basedir @ b) of
            Inl e \<Rightarrow> e
          | Inr st \<Rightarrow>
             (case st ''st_mode'' of
                None \<Rightarrow> KeyError ''st_mode''
              | Some m \<Rightarrow>
                 (case filemode m of
                    Inl e \<Rightarrow> e
                  | Inr p \<Rightarrow>
                     (case st ''st_nlink'' of
                        None \<Rightarrow> KeyError ''st_nlink''
                      | Some n \<Rightarrow>
                         (case st ''st_size'' of
                            None \<Rightarrow> KeyError ''st_size''
                          | Some z \<Rightarrow>
                             (case st ''st_mtime'' of
                                None \<Rightarrow> KeyError ''st_mtime''
                              | Some t \<Rightarrow>
                                 (case gmtime t of Inl e \<Rightarrow> e | Inr tm \<Rightarrow> TypeError)))))))"
  by (simp add: format_entry_defs getitem_list_key_def Let_def split: sum.splits option.splits)

lemma example_stat_music:
  "stat example_jail ''/music.mp3'' = Inr (map_of (stat_of 33188 1 7045120 1662090420))"
  by (simp add: stat_def example_defs)

lemma example_stat_missing: "stat example_jail ''/missing'' = Inl ResourceNotFound"
  by (simp add: stat_def example_defs)

lemma example_stat_link:
  "stat example_jail ''/link'' = Inr (map_of (stat_of 41471 1 10 1662090000))"
  by (simp add: stat_def example_defs)

lemma stat_of_keys:
  "map_of (stat_of m n z t) ''st_mode'' = Some m" "map_of (stat_of m n z t) ''st_nlink'' = Some n"
  "map_of (stat_of m n z t) ''st_size'' = Some z" "map_of (stat_of m n z t) ''st_mtime'' = Some t"
  "map_of (stat_of m n z t) ''st_uid'' = Some 1000" "map_of (stat_of m n z t) ''st_gid'' = Some 1000"
  by (simp_all add: stat_of_def)

lemma example_format_music:
  "format_list example_jail now ''/'' [''music.mp3''] = ([], Some TypeError)"
proof -
  have "format_entry example_jail now ''/'' ''music.mp3'' = Inl TypeError"
    by (rule format_entry_TypeError
          [where st = "map_of (stat_of 33188 1 7045120 1662090420)", OF _ _ filemode_regular_0644
             _ _ _ gmtime_fixture])
       (simp_all add: example_stat_music stat_of_keys)
  then show ?thesis by simp
qed

lemma example_format_link:
  "format_list example_jail now ''/'' [''link''] = ([], Some TypeError)"
proof -
  have "format_entry example_jail now ''/'' ''link'' = Inl TypeError"
    by (rule format_entry_TypeError
          [where st = "map_of (stat_of 41471 1 10 1662090000)" and m = 41471,
             OF _ _ filemode_in_range _ _ _ gmtime_link_time])
       (simp_all add: example_stat_link stat_of_keys)
  then show ?thesis by simp
qed

lemma example_format_missing:
  "format_list example_jail now ''/'' [''missing''] = ([], Some ResourceNotFound)"
  by (simp add: format_entry_defs example_stat_missing)

text \<open>
  With a read that gives a number, the pass for the regular file \<^verbatim>\<open>music.mp3\<close> still
  yields nothing: the \<^verbatim>\<open>yield\<close> belongs to the branch for symbolic links.
\<close>

lemma example_regular_file_yields_nothing:
  "format_entry_with read_mtime example_jail 1700000000 ''/'' ''music.mp3'' = Inr []"
proof -
  have m: "mtimestr_of 37910000 fixture_time = Inr ''Sep 02  2022''"
    by (simp add: mtimestr_of_def raising_def getitem_def fixture_time_def months_map_Sep
        fmtstr_of_def SIX_MONTHS_def strftime_old fixture_texts del: strftime.simps)
  show ?thesis
    by (simp add: format_entry_with_def raising_def getitem_def example_stat_music stat_of_keys
        filemode_regular_0644 gmtime_fixture read_mtime_def m [unfolded fixture_time_def]
        S_IFLNK_def)
qed

text \<open>
  C3 (listing exactness). For the fixture entry \<^verbatim>\<open>music.mp3\<close> (mode \<^verbatim>\<open>0100644\<close>, one
  link, 7045120 bytes, modified 2022-09-02, listed at a time more than 180 days later)
  \<^verbatim>\<open>format_list\<close> yields no line: the first \<^verbatim>\<open>next()\<close> raises \<^verbatim>\<open>TypeError\<close> at
  \<^verbatim>\<open>st[['st_mtime']]\<close>, so the result is not the one claimed line. Even with a read that
  gives a number the pass yields nothing for this entry, because the \<^verbatim>\<open>yield\<close> is inside
  the branch for symbolic links. The docstring says the iterator yields the entries of the
  directory.
\<close>

theorem format_list_fixture_raises:
  "stat example_jail (''/'' @ ''music.mp3'') = Inr (map_of (stat_of 33188 1 7045120 1662090420)) \<and>
   format_list example_jail 1700000000 ''/'' [''music.mp3''] = ([], Some TypeError) \<and>
   first_next (format_list example_jail 1700000000 ''/'' [''music.mp3'']) = Inl TypeError \<and>
   format_list example_jail 1700000000 ''/'' [''music.mp3''] \<noteq>
     ([''-rw-r--r--   1 owner    group    7045120 Sep 02  2022 music.mp3'' @ [CHR 0x0D, CHR 0x0A]],
      None) \<and>
   format_entry_with read_mtime example_jail 1700000000 ''/'' ''music.mp3'' = Inr []"
  by (simp add: example_format_music example_stat_music first_next_def
      example_regular_file_yields_nothing del: format_list.simps)

text \<open>
  C4 as stated (every non-empty listing raises \<^verbatim>\<open>TypeError\<close>) fails when \<^verbatim>\<open>stat\<close> of
  the first entry raises: the entry \<^verbatim>\<open>missing\<close> is not in the jail, and the first
  \<^verbatim>\<open>next()\<close> raises the store's \<^verbatim>\<open>ResourceNotFound\<close>, which is not \<^verbatim>\<open>TypeError\<close>.
\<close>

theorem format_list_stat_error_first:
  "stat example_jail (''/'' @ ''missing'') = Inl ResourceNotFound \<and>
   first_next (format_list example_jail 1700000000 ''/'' [''missing'']) = Inl ResourceNotFound \<and>
   first_next (format_list example_jail 1700000000 ''/'' [''missing'']) \<noteq> Inl TypeError"
  by (simp add: example_format_missing example_stat_missing first_next_def
      del: format_list.simps)

text \<open>
  C4, amended: \<^verbatim>\<open>format_list\<close> never yields a line. For the empty listing the generator
  ends at once. For a non-empty listing the first \<^verbatim>\<open>next()\<close> raises, before any line is
  yielded, the exception of the first step of the loop body that fails for the first entry:
  the exception of \<^verbatim>\<open>stat\<close>; else \<^verbatim>\<open>KeyError\<close> for a missing \<^verbatim>\<open>st_mode\<close>; else the
  exception of \<^verbatim>\<open>filemode\<close>; else \<^verbatim>\<open>KeyError\<close> for a missing \<^verbatim>\<open>st_nlink\<close>, \<^verbatim>\<open>st_size\<close>
  or \<^verbatim>\<open>st_mtime\<close>, in this order; else the exception of \<^verbatim>\<open>gmtime\<close>; and when all of
  these succeed, the \<^verbatim>\<open>TypeError\<close> of \<^verbatim>\<open>st[['st_mtime']]\<close>.
\<close>

theorem format_list_never_yields:
  "fst (format_list s now basedir listing) = [] \<and>
   (listing = [] \<longrightarrow>
      format_list s now basedir listing = ([], None) \<and>
      first_next (format_list s now basedir listing) = Inr None) \<and>
   (\<forall>b rest. listing = b # rest \<longrightarrow>
      format_list s now basedir listing =
        ([], Some
          (case stat s (basedir @ b) of
             Inl e \<Rightarrow> e
           | Inr st \<Rightarrow>
              (case st ''st_mode'' of
                 None \<Rightarrow> KeyError ''st_mode''
               | Some m \<Rightarrow>
                  (case filemode m of
                     Inl e \<Rightarrow> e
                   | Inr p \<Rightarrow>
                      (case st ''st_nlink'' of
                         None \<Rightarrow> KeyError ''st_nlink''
                       | Some n \<Rightarrow>
                          (case st ''st_size'' of
                             None \<Rightarrow> KeyError ''st_size''
                           | Some z \<Rightarrow>
                              (case st ''st_mtime'' of
                                 None \<Rightarrow> KeyError ''st_mtime''
                               | Some t \<Rightarrow>
                                  (case gmtime t of
                                     Inl e \<Rightarrow> e
                                   | Inr tm \<Rightarrow> TypeError)))))))) \<and>
      (\<exists>e. first_next (format_list s now basedir listing) = Inl e \<and>
           snd (format_list s now basedir listing) = Some e))"
proof (cases listing)
  case Nil
  then show ?thesis by (simp add: first_next_def)
next
  case (Cons b rest)
  then show ?thesis
    by (simp add: format_entry_exception first_next_def)
qed

theorem format_list_never_yields_witness:
  "stat example_jail (''/'' @ ''music.mp3'') = Inr (map_of (stat_of 33188 1 7045120 1662090420)) \<and>
   filemode 33188 = Inr ''-rw-r--r--'' \<and> gmtime 1662090420 = Inr fixture_time \<and>
   fst (format_list example_jail 1700000000 ''/'' [''music.mp3'', ''link'']) = [] \<and>
   format_list example_jail 1700000000 ''/'' [''music.mp3'', ''link''] = ([], Some TypeError) \<and>
   stat example_jail (''/'' @ ''nothing'') = Inl ResourceNotFound \<and>
   format_list example_jail 1700000000 ''/'' [''nothing'', ''link''] = ([], Some ResourceNotFound)"
proof -
  have st: "stat example_jail (''/'' @ ''music.mp3'') =
      Inr (map_of (stat_of 33188 1 7045120 1662090420))"
    by (simp add: example_stat_music)
  have nt: "stat example_jail (''/'' @ ''nothing'') = Inl ResourceNotFound"
    by (simp add: stat_def example_defs)
  have g: "gmtime 1662090420 = Inr fixture_time"
    by (simp add: gmtime_fixture fixture_time_def)
  note T = format_list_never_yields [of example_jail 1700000000 "''/''" "[''music.mp3'', ''link'']"]
  note U = format_list_never_yields [of example_jail 1700000000 "''/''" "[''nothing'', ''link'']"]
  from T have y: "fst (format_list example_jail 1700000000 ''/'' [''music.mp3'', ''link'']) = []"
    by (rule conjunct1)
  from T [THEN conjunct2, THEN conjunct2, THEN spec, THEN spec, THEN mp, THEN conjunct1,
      of "''music.mp3''" "[''link'']"]
  have t: "format_list example_jail 1700000000 ''/'' [''music.mp3'', ''link''] =
      ([], Some TypeError)"
    by (simp add: st [simplified] stat_of_keys filemode_regular_0644 gmtime_fixture
        del: format_list.simps)
  from U [THEN conjunct2, THEN conjunct2, THEN spec, THEN spec, THEN mp, THEN conjunct1,
      of "''nothing''" "[''link'']"]
  have u: "format_list example_jail 1700000000 ''/'' [''nothing'', ''link''] =
      ([], Some ResourceNotFound)"
    by (simp add: nt [simplified] del: format_list.simps)
  from st filemode_regular_0644 g y t nt u show ?thesis by (intro conjI)
qed

subsection \<open>readlink and stat\<close>

lemma readlink_ignores_path:
  assumes "path \<noteq> []" and "path' \<noteq> []"
  shows "readlink s path = readlink s path'"
  using assms by (simp add: readlink_def)

text \<open>
  C5 (readlink). In the concrete jail \<^verbatim>\<open>/link\<close> is a symbolic link whose stored target
  is \<^verbatim>\<open>readme.txt\<close>, and \<^verbatim>\<open>/readme.txt\<close> is a regular file. \<^verbatim>\<open>readlink\<close> queries the
  fixed path \<^verbatim>\<open>'.'\<close>, so both calls return the link information of the jail's home
  directory, \<^verbatim>\<open>None\<close>: the link's target is not returned and the regular file raises no
  error. The listing of the link ends with \<^verbatim>\<open>TypeError\<close> and renders nothing.
\<close>

theorem readlink_ignores_its_argument:
  "getinfo_link (home_fs example_jail) ''/link'' = Inr (Some ''readme.txt'') \<and>
   readlink example_jail ''/link'' = Inr None \<and>
   getinfo_link (home_fs example_jail) ''/readme.txt'' = Inr None \<and>
   readlink example_jail ''/readme.txt'' = Inr None \<and>
   format_list example_jail 1700000000 ''/'' [''link''] = ([], Some TypeError)"
  by (simp add: example_format_link del: format_list.simps) (simp add: readlink_def example_defs)

text \<open>
  C6 as stated fails for \<^verbatim>\<open>stat\<close>: the dictionary it returns for \<^verbatim>\<open>/music.mp3\<close> is the
  store's, and holds the host's numeric owner and group, \<^verbatim>\<open>st_uid = 1000\<close> and
  \<^verbatim>\<open>st_gid = 1000\<close>.
\<close>

theorem stat_exposes_host_ids:
  "stat example_jail ''/music.mp3'' = Inr (map_of (stat_of 33188 1 7045120 1662090420)) \<and>
   map_of (stat_of 33188 1 7045120 1662090420) ''st_uid'' = Some 1000 \<and>
   map_of (stat_of 33188 1 7045120 1662090420) ''st_gid'' = Some 1000"
  by (simp add: example_stat_music stat_of_keys)

lemma same_but_owner_key:
  assumes "same_but_owner d d'" and "k \<noteq> ''st_uid''" and "k \<noteq> ''st_gid''"
  shows "d k = d' k"
proof -
  from assms(1) have "(d(''st_uid'' := None, ''st_gid'' := None)) k =
      (d'(''st_uid'' := None, ''st_gid'' := None)) k"
    by (simp add: same_but_owner_def)
  with assms(2,3) show ?thesis by simp
qed

text \<open>
  The loop body does not read \<^verbatim>\<open>st_uid\<close> or \<^verbatim>\<open>st_gid\<close>: over two stores that differ
  at most in them, and with a read that does not tell them apart either, a pass gives the
  same lines or the same exception.
\<close>

lemma format_entry_with_owner_independent:
  assumes "same_store_but_owner (home_fs s) (home_fs s')"
    and "\<And>d d' ks. same_but_owner d d' \<Longrightarrow> subscript d ks = subscript d' ks"
  shows "format_entry_with subscript s now basedir b = format_entry_with subscript s' now basedir b"
proof -
  let ?file = "basedir @ b"
  from assms(1) have link: "readlink s ?file = readlink s' ?file"
    by (simp add: readlink_def same_store_but_owner_def)
  from assms(1) have rel: "rel_sum (=) same_but_owner (stat s ?file) (stat s' ?file)"
    by (simp add: stat_def same_store_but_owner_def)
  show ?thesis
  proof (cases "stat s ?file")
    case (Inl e)
    with rel have "stat s' ?file = Inl e" by (cases "stat s' ?file") simp_all
    with Inl show ?thesis by (simp add: format_entry_with_def raising_def)
  next
    case (Inr st)
    with rel obtain st' where st': "stat s' ?file = Inr st'" and same: "same_but_owner st st'"
      by (cases "stat s' ?file") simp_all
    have k: "st ''st_mode'' = st' ''st_mode''" "st ''st_nlink'' = st' ''st_nlink''"
      "st ''st_size'' = st' ''st_size''" "st ''st_mtime'' = st' ''st_mtime''"
      by (simp_all add: same_but_owner_key [OF same])
    have r: "subscript st [''st_mtime''] = subscript st' [''st_mtime'']"
      by (rule assms(2) [OF same])
    show ?thesis
      unfolding format_entry_with_def Let_def Inr st' raising_def sum.case getitem_def k r link
      by (rule refl)
  qed
qed

lemma format_list_owner_independent:
  assumes "same_store_but_owner (home_fs s) (home_fs s')"
  shows "format_list s now basedir listing = format_list s' now basedir listing"
proof -
  have "format_entry s now basedir b = format_entry s' now basedir b" for b
    unfolding format_entry_def
    by (rule format_entry_with_owner_independent [OF assms]) (simp add: getitem_list_key_def)
  then show ?thesis
    by (induction listing) (simp_all split: sum.splits)
qed

text \<open>
  Every line a pass can yield is the template filled with the texts \<^verbatim>\<open>owner\<close> and
  \<^verbatim>\<open>group\<close>, whatever the read gives.
\<close>

lemma format_entry_with_placeholders:
  assumes "format_entry_with subscript s now basedir b = Inr ls" and "l \<in> set ls"
  shows "\<exists>permission nlinks fsize mtimestr target.
           l = listing_line permission nlinks ''owner'' ''group'' fsize mtimestr
                 (b @ '' -> '' @ target)"
  using assms
  by (fastforce simp: format_entry_with_def raising_def Let_def
      split: sum.splits option.splits if_splits)

text \<open>
  C6, amended: \<^verbatim>\<open>stat\<close> of a non-empty path returns the store's raw stat dictionary
  unchanged, with whatever \<^verbatim>\<open>st_uid\<close> and \<^verbatim>\<open>st_gid\<close> the store reports; it gives no
  placeholder. The listing never reads the two fields: over two stores that differ at most
  in them, \<^verbatim>\<open>format_list\<close> behaves the same, and so does the loop body for any outcome
  of the read \<^verbatim>\<open>st[['st_mtime']]\<close> that does not depend on them. Every line the loop
  body yields, for any outcome of that read, is the line template filled with the owner
  text \<^verbatim>\<open>owner\<close> and the group text \<^verbatim>\<open>group\<close>.
\<close>

theorem stat_raw_listing_owner_independent:
  "(path \<noteq> [] \<longrightarrow> stat s path = getinfo_stat (home_fs s) path) \<and>
   (same_store_but_owner (home_fs s) (home_fs s') \<longrightarrow>
      format_list s now basedir listing = format_list s' now basedir listing \<and>
      (\<forall>subscript b.
         (\<forall>d d' ks. same_but_owner d d' \<longrightarrow> subscript d ks = subscript d' ks) \<longrightarrow>
         format_entry_with subscript s now basedir b =
           format_entry_with subscript s' now basedir b)) \<and>
   (\<forall>subscript b ls. format_entry_with subscript s now basedir b = Inr ls \<longrightarrow>
      (\<forall>l \<in> set ls. \<exists>permission nlinks fsize mtimestr target.
         l = listing_line permission nlinks ''owner'' ''group'' fsize mtimestr
               (b @ '' -> '' @ target)))"
proof (intro conjI impI allI ballI)
  assume "path \<noteq> []"
  then show "stat s path = getinfo_stat (home_fs s) path" by (simp add: stat_def)
next
  assume "same_store_but_owner (home_fs s) (home_fs s')"
  then show "format_list s now basedir listing = format_list s' now basedir listing"
    by (rule format_list_owner_independent)
next
  fix subscript :: "(string \<rightharpoonup> int) \<Rightarrow> string list \<Rightarrow> error + int" and b
  assume a: "same_store_but_owner (home_fs s) (home_fs s')"
    and r: "\<forall>d d' ks. same_but_owner d d' \<longrightarrow> subscript d ks = subscript d' ks"
  from r have "subscript d ks = subscript d' ks" if "same_but_owner d d'" for d d' ks
    using that by blast
  with a show "format_entry_with subscript s now basedir b =
      format_entry_with subscript s' now basedir b"
    by (rule format_entry_with_owner_independent)
next
  fix subscript :: "(string \<rightharpoonup> int) \<Rightarrow> string list \<Rightarrow> error + int" and b ls l
  assume "format_entry_with subscript s now basedir b = Inr ls" and "l \<in> set ls"
  then show "\<exists>permission nlinks fsize mtimestr target.
      l = listing_line permission nlinks ''owner'' ''group'' fsize mtimestr (b @ '' -> '' @ target)"
    by (rule format_entry_with_placeholders)
qed

lemma as_root_same: "same_store_but_owner a (as_root a)"
proof -
  have "rel_sum (=) same_but_owner (getinfo_stat a p) (getinfo_stat (as_root a) p)" for p
    by (cases "getinfo_stat a p") (auto simp: as_root_def same_but_owner_def)
  then show ?thesis by (simp add: same_store_but_owner_def as_root_def)
qed

lemma linked_stat_link:
  "stat linked_jail ''/link'' = Inr (map_of (stat_of 41471 1 10 1662090000))"
  using example_stat_link by (simp add: stat_def linked_jail_def)

lemma linked_readlink: "readlink linked_jail ''/link'' = Inr (Some ''readme.txt'')"
  by (simp add: readlink_def linked_jail_def)

lemma filemode_symlink: "filemode 41471 = Inr ''lrwxrwxrwx''"
  by (simp add: filemode_def fileperm_def filetype_def permbit_def execbit_def)

lemma gmtime_link_fields:
  "gmtime 1662090000 =
     Inr \<lparr> tm_year = 2022, tm_mon = 9, tm_mday = 2, tm_hour = 3, tm_min = 40, tm_sec = 0 \<rparr>"
proof -
  have "broken_down 1662090000 =
     \<lparr> tm_year = 2022, tm_mon = 9, tm_mday = 2, tm_hour = 3, tm_min = 40, tm_sec = 0 \<rparr>"
    by (simp add: broken_down_def civil_from_days_def civil_from_era_def civil_def
        year_of_era_def day_of_year_def)
  then show ?thesis by (simp add: gmtime_def)
qed

lemma linked_format_link:
  "format_entry_with read_mtime linked_jail 1700000000 ''/'' ''link'' =
     Inr [''lrwxrwxrwx   1 owner    group          10 Sep 02  2022 link -> readme.txt'' @
          [CHR 0x0D, CHR 0x0A]]"
proof -
  have m: "mtimestr_of 37910000
      \<lparr> tm_year = 2022, tm_mon = 9, tm_mday = 2, tm_hour = 3, tm_min = 40, tm_sec = 0 \<rparr> =
      Inr ''Sep 02  2022''"
    by (simp add: mtimestr_of_def raising_def getitem_def months_map_Sep
        fmtstr_of_def SIX_MONTHS_def strftime_old fixture_texts del: strftime.simps)
  have l: "listing_line ''lrwxrwxrwx'' 1 ''owner'' ''group'' 10 ''Sep 02  2022''
      ''link -> readme.txt'' =
     ''lrwxrwxrwx   1 owner    group          10 Sep 02  2022 link -> readme.txt'' @
     [CHR 0x0D, CHR 0x0A]"
    by (simp add: listing_line_def text_defs replicate_numeral)
  show ?thesis
    unfolding format_entry_with_def Let_def
    by (simp add: raising_def getitem_def linked_stat_link stat_of_keys filemode_symlink
        gmtime_link_fields read_mtime_def m S_IFLNK_def linked_readlink l)
qed

theorem stat_raw_listing_owner_independent_witness:
  "''/link'' \<noteq> [] \<and>
   stat linked_jail ''/link'' = getinfo_stat (home_fs linked_jail) ''/link'' \<and>
   same_store_but_owner (home_fs linked_jail)
     (home_fs (linked_jail\<lparr>home_fs := as_root (home_fs linked_jail)\<rparr>)) \<and>
   format_list (linked_jail\<lparr>home_fs := as_root (home_fs linked_jail)\<rparr>) 1700000000 ''/'' [''link''] =
     format_list linked_jail 1700000000 ''/'' [''link''] \<and>
   format_entry_with read_mtime linked_jail 1700000000 ''/'' ''link'' =
     Inr [''lrwxrwxrwx   1 owner    group          10 Sep 02  2022 link -> readme.txt'' @
          [CHR 0x0D, CHR 0x0A]] \<and>
   format_entry_with read_mtime (linked_jail\<lparr>home_fs := as_root (home_fs linked_jail)\<rparr>)
       1700000000 ''/'' ''link'' =
     Inr [''lrwxrwxrwx   1 owner    group          10 Sep 02  2022 link -> readme.txt'' @
          [CHR 0x0D, CHR 0x0A]] \<and>
   (\<exists>permission nlinks fsize mtimestr target.
      ''lrwxrwxrwx   1 owner    group          10 Sep 02  2022 link -> readme.txt'' @
        [CHR 0x0D, CHR 0x0A] =
      listing_line permission nlinks ''owner'' ''group'' fsize mtimestr
        (''link'' @ '' -> '' @ target))"
proof -
  let ?root = "linked_jail\<lparr>home_fs := as_root (home_fs linked_jail)\<rparr>"
  let ?line = "''lrwxrwxrwx   1 owner    group          10 Sep 02  2022 link -> readme.txt'' @
        [CHR 0x0D, CHR 0x0A]"
  note T = stat_raw_listing_owner_independent
    [of "''/link''" linked_jail ?root 1700000000 "''/''" "[''link'']"]
  have ne: "''/link'' \<noteq> []" by simp
  have same: "same_store_but_owner (home_fs linked_jail) (home_fs ?root)"
    by (simp add: as_root_same)
  have rd: "\<forall>d d' ks. same_but_owner d d' \<longrightarrow> read_mtime d ks = read_mtime d' ks"
    by (simp add: read_mtime_def)
  from T [THEN conjunct1, THEN mp, OF ne]
  have a: "stat linked_jail ''/link'' = getinfo_stat (home_fs linked_jail) ''/link''" .
  from T [THEN conjunct2, THEN conjunct1, THEN mp, OF same]
  have b: "format_list linked_jail 1700000000 ''/'' [''link''] =
      format_list ?root 1700000000 ''/'' [''link'']"
    and c: "\<forall>subscript b.
         (\<forall>d d' ks. same_but_owner d d' \<longrightarrow> subscript d ks = subscript d' ks) \<longrightarrow>
         format_entry_with subscript linked_jail 1700000000 ''/'' b =
           format_entry_with subscript ?root 1700000000 ''/'' b"
    by (rule conjunct1, rule conjunct2)
  from c [THEN spec, THEN spec, THEN mp, OF rd]
  have d: "format_entry_with read_mtime linked_jail 1700000000 ''/'' ''link'' =
      format_entry_with read_mtime ?root 1700000000 ''/'' ''link''" .
  from T [THEN conjunct2, THEN conjunct2, THEN spec, THEN spec, THEN spec, THEN mp,
      OF linked_format_link]
  have "\<forall>l \<in> set [?line]. \<exists>permission nlinks fsize mtimestr target.
      l = listing_line permission nlinks ''owner'' ''group'' fsize mtimestr
            (''link'' @ '' -> '' @ target)" .
  then have e: "\<exists>permission nlinks fsize mtimestr target.
      ?line = listing_line permission nlinks ''owner'' ''group'' fsize mtimestr
            (''link'' @ '' -> '' @ target)"
    by (rule bspec) simp
  from ne a same b [symmetric] linked_format_link d [symmetric, unfolded linked_format_link] e
  show ?thesis by (intro conjI)
qed

subsection \<open>AbstractFS.__init__\<close>













subsection \<open>FileWriter\<close>


lemma write_chunk_count:
  assumes "write_chunk w c = Inr (n, w')"
  shows "n = int (length c)"
  using assms by (auto simp: write_chunk_def split: if_splits)










subsection \<open>sanitize_file_name\<close>

lemma digit_val_digit_char:
  assumes "d < 10"
  shows "digit_val (digit_char d) = d"
proof -
  from assms have "d = 0 \<or> d = 1 \<or> d = 2 \<or> d = 3 \<or> d = 4 \<or> d = 5 \<or> d = 6 \<or> d = 7 \<or>
      d = 8 \<or> d = 9"
    by arith
  then show ?thesis
    by (elim disjE) (simp_all add: digit_val_def digit_char_def)
qed

lemma digit_char_not_minus:
  assumes "d < 10"
  shows "digit_char d \<noteq> CHR ''-''"
proof -
  from assms have "d = 0 \<or> d = 1 \<or> d = 2 \<or> d = 3 \<or> d = 4 \<or> d = 5 \<or> d = 6 \<or> d = 7 \<or>
      d = 8 \<or> d = 9"
    by arith
  then show ?thesis
    by (elim disjE) (simp_all add: digit_char_def)
qed

lemma decimal_val_snoc: "decimal_val (cs @ [c]) = 10 * decimal_val cs + digit_val c"
  by (simp add: decimal_val_def)

lemma decimal_val_digits: "decimal_val (digits n) = n"
proof (induction n rule: digits.induct)
  case (1 n)
  show ?case
  proof (cases "n < 10")
    case True
    then show ?thesis
      by (simp add: digits.simps [of n] decimal_val_def digit_val_digit_char)
  next
    case False
    with "1" have "decimal_val (digits (n div 10)) = n div 10" by simp
    with False show ?thesis
      by (simp add: digits.simps [of n] decimal_val_snoc digit_val_digit_char)
  qed
qed

lemma digits_inj: "digits m = digits n \<Longrightarrow> m = n"
  by (metis decimal_val_digits)

lemma digits_no_minus: "CHR ''-'' \<notin> set (digits n)"
proof (induction n rule: digits.induct)
  case (1 n)
  show ?case
  proof (cases "n < 10")
    case True
    then show ?thesis
      using digit_char_not_minus [of n] by (simp add: digits.simps [of n])
  next
    case False
    with "1" have "CHR ''-'' \<notin> set (digits (n div 10))" by simp
    with False show ?thesis
      using digit_char_not_minus [of "n mod 10"] by (simp add: digits.simps [of n])
  qed
qed

lemma split_at_first:
  assumes "c \<notin> set xs" and "c \<notin> set xs'" and "xs @ c # ys = xs' @ c # ys'"
  shows "xs = xs' \<and> ys = ys'"
  using assms
proof (induction xs arbitrary: xs')
  case Nil
  then show ?case by (cases xs') auto
next
  case (Cons x xs)
  then show ?case by (cases xs') auto
qed

lemma str_int_nonneg: "0 \<le> i \<Longrightarrow> str_int i = digits (nat i)"
  by (simp add: str_int_def)

lemma pad2_length:
  assumes "0 \<le> n" and "n < 100"
  shows "length (pad2 n) = 2"
proof (cases "n < 10")
  case True
  with assms show ?thesis
    by (simp add: pad2_def str_int_def digits.simps [of "nat n"])
next
  case False
  with assms have a: "\<not> nat n < 10" and b: "nat n div 10 < 10" by simp_all
  from assms False show ?thesis
    by (simp add: pad2_def str_int_def digits.simps [of "nat n"] a digits.simps [of "nat n div 10"] b)
qed

lemma pad2_inj:
  assumes "0 \<le> m" and "m < 100" and "0 \<le> n" and "n < 100" and "pad2 m = pad2 n"
  shows "m = n"
proof -
  have v: "decimal_val (pad2 k) = nat k" if "0 \<le> k" for k
  proof (cases "k < 10")
    case True
    have "decimal_val (CHR ''0'' # digits (nat k)) = decimal_val (digits (nat k))"
      by (simp add: decimal_val_def digit_val_def)
    with True that show ?thesis
      by (simp add: pad2_def str_int_def decimal_val_digits)
  next
    case False
    with that show ?thesis
      by (simp add: pad2_def str_int_def decimal_val_digits)
  qed
  from assms(5) have "decimal_val (pad2 m) = decimal_val (pad2 n)" by simp
  with v [OF assms(1)] v [OF assms(3)] assms(1,3) show ?thesis by simp
qed

lemma sanitize_text:
  "sanitize_file_name slugify now n =
     str_int (year now) @ ''-'' @ pad2 (month now) @ ''-'' @ pad2 (day now) @ '' '' @
     pad2 (hour now) @ '':'' @ pad2 (minute now) @ '':'' @ pad2 (second now) @
     '' - '' @ slugify n"
  by (simp add: sanitize_file_name_def strftime_sanitize timetuple_def del: strftime.simps)

lemma timestamp_fields:
  assumes "valid_datetime a" and "valid_datetime b"
    and "strftime ''%Y-%m-%d %H:%M:%S'' (timetuple a) = strftime ''%Y-%m-%d %H:%M:%S'' (timetuple b)"
  shows "year a = year b \<and> month a = month b \<and> day a = day b \<and>
         hour a = hour b \<and> minute a = minute b \<and> second a = second b"
proof -
  from assms(1) have va: "0 \<le> year a" "0 \<le> month a" "month a < 100" "0 \<le> day a" "day a < 100"
    "0 \<le> hour a" "hour a < 100" "0 \<le> minute a" "minute a < 100"
    "0 \<le> second a" "second a < 100"
    by (simp_all add: valid_datetime_def)
  from assms(2) have vb: "0 \<le> year b" "0 \<le> month b" "month b < 100" "0 \<le> day b" "day b < 100"
    "0 \<le> hour b" "hour b < 100" "0 \<le> minute b" "minute b < 100"
    "0 \<le> second b" "second b < 100"
    by (simp_all add: valid_datetime_def)
  note len = pad2_length [OF va(2,3)] pad2_length [OF vb(2,3)]
    pad2_length [OF va(4,5)] pad2_length [OF vb(4,5)]
    pad2_length [OF va(6,7)] pad2_length [OF vb(6,7)]
    pad2_length [OF va(8,9)] pad2_length [OF vb(8,9)]
    pad2_length [OF va(10,11)] pad2_length [OF vb(10,11)]
  let ?ra = "pad2 (month a) @ ''-'' @ pad2 (day a) @ '' '' @ pad2 (hour a) @ '':'' @
      pad2 (minute a) @ '':'' @ pad2 (second a)"
  let ?rb = "pad2 (month b) @ ''-'' @ pad2 (day b) @ '' '' @ pad2 (hour b) @ '':'' @
      pad2 (minute b) @ '':'' @ pad2 (second b)"
  from assms(3) have "digits (nat (year a)) @ CHR ''-'' # ?ra = digits (nat (year b)) @ CHR ''-'' # ?rb"
    by (simp add: strftime_sanitize timetuple_def str_int_nonneg va(1) vb(1) del: strftime.simps)
  from split_at_first [OF digits_no_minus digits_no_minus this]
  have y: "digits (nat (year a)) = digits (nat (year b))" and r: "?ra = ?rb"
    by simp_all
  from digits_inj [OF y] va(1) vb(1) have "year a = year b" by simp
  moreover from r len have "pad2 (month a) = pad2 (month b)" "pad2 (day a) = pad2 (day b)"
    "pad2 (hour a) = pad2 (hour b)" "pad2 (minute a) = pad2 (minute b)"
    "pad2 (second a) = pad2 (second b)"
    by simp_all
  then have "month a = month b" "day a = day b" "hour a = hour b" "minute a = minute b"
    "second a = second b"
    using va vb by (simp_all add: pad2_inj)
  ultimately show ?thesis by simp
qed

lemma same_second_close:
  assumes "valid_datetime a" and "valid_datetime b"
    and "year a = year b \<and> month a = month b \<and> day a = day b \<and>
         hour a = hour b \<and> minute a = minute b \<and> second a = second b"
  shows "\<bar>microseconds_of a - microseconds_of b\<bar> < 1000000"
proof -
  from assms(3) have "microseconds_of a - microseconds_of b = microsecond a - microsecond b"
    by (simp add: microseconds_of_def)
  moreover from assms(1,2) have "0 \<le> microsecond a" "microsecond a < 1000000"
    "0 \<le> microsecond b" "microsecond b < 1000000"
    by (simp_all add: valid_datetime_def)
  ultimately show ?thesis by linarith
qed

text \<open>
  C9 (sanitizer). The identifier is the reading printed as \<^verbatim>\<open>YYYY-MM-DD HH:MM:SS\<close>,
  then \<^verbatim>\<open>' - '\<close>, then the slug of the name; it is a function of the name and the
  reading. Two readings at least one second apart give different identifiers for the same
  name; two readings that agree down to the second give the same identifier.
\<close>

theorem sanitize_file_name_distinct:
  "sanitize_file_name slugify a n =
     str_int (year a) @ ''-'' @ pad2 (month a) @ ''-'' @ pad2 (day a) @ '' '' @
     pad2 (hour a) @ '':'' @ pad2 (minute a) @ '':'' @ pad2 (second a) @
     '' - '' @ slugify n \<and>
   (valid_datetime a \<and> valid_datetime b \<and>
    \<bar>microseconds_of a - microseconds_of b\<bar> \<ge> 1000000 \<longrightarrow>
      sanitize_file_name slugify a n \<noteq> sanitize_file_name slugify b n) \<and>
   (year a = year b \<and> month a = month b \<and> day a = day b \<and>
    hour a = hour b \<and> minute a = minute b \<and> second a = second b \<longrightarrow>
      sanitize_file_name slugify a n = sanitize_file_name slugify b n)"
proof (intro conjI impI)
  show "sanitize_file_name slugify a n =
     str_int (year a) @ ''-'' @ pad2 (month a) @ ''-'' @ pad2 (day a) @ '' '' @
     pad2 (hour a) @ '':'' @ pad2 (minute a) @ '':'' @ pad2 (second a) @
     '' - '' @ slugify n"
    by (rule sanitize_text)
next
  assume h: "valid_datetime a \<and> valid_datetime b \<and>
    \<bar>microseconds_of a - microseconds_of b\<bar> \<ge> 1000000"
  show "sanitize_file_name slugify a n \<noteq> sanitize_file_name slugify b n"
  proof
    assume "sanitize_file_name slugify a n = sanitize_file_name slugify b n"
    then have "strftime ''%Y-%m-%d %H:%M:%S'' (timetuple a) =
        strftime ''%Y-%m-%d %H:%M:%S'' (timetuple b)"
      unfolding sanitize_file_name_def by (simp only: append_same_eq)
    with h have "year a = year b \<and> month a = month b \<and> day a = day b \<and>
         hour a = hour b \<and> minute a = minute b \<and> second a = second b"
      using timestamp_fields [of a b] by blast
    with h have "\<bar>microseconds_of a - microseconds_of b\<bar> < 1000000"
      using same_second_close [of a b] by blast
    with h show False by simp
  qed
next
  assume "year a = year b \<and> month a = month b \<and> day a = day b \<and>
    hour a = hour b \<and> minute a = minute b \<and> second a = second b"
  then show "sanitize_file_name slugify a n = sanitize_file_name slugify b n"
    by (simp add: sanitize_text)
qed

lemma example_reading_valid:
  "valid_datetime (example_reading 9 900000)" "valid_datetime (example_reading 10 900000)"
  "valid_datetime (example_reading 9 100000)"
  by (simp_all add: valid_datetime_def example_reading_def)

lemma example_reading_micros:
  "microseconds_of (example_reading 10 900000) - microseconds_of (example_reading 9 900000) = 1000000"
  by (simp add: microseconds_of_def example_reading_def)

theorem sanitize_file_name_distinct_witness:
  "valid_datetime (example_reading 9 900000) \<and> valid_datetime (example_reading 10 900000) \<and>
   \<bar>microseconds_of (example_reading 9 900000) - microseconds_of (example_reading 10 900000)\<bar>
     \<ge> 1000000 \<and>
   sanitize_file_name (\<lambda>x. x) (example_reading 9 900000) ''a.txt'' = ''2024-03-05 07:08:09 - a.txt'' \<and>
   sanitize_file_name (\<lambda>x. x) (example_reading 9 900000) ''a.txt'' \<noteq>
     sanitize_file_name (\<lambda>x. x) (example_reading 10 900000) ''a.txt'' \<and>
   example_reading 9 900000 \<noteq> example_reading 9 100000 \<and>
   sanitize_file_name (\<lambda>x. x) (example_reading 9 900000) ''a.txt'' =
     sanitize_file_name (\<lambda>x. x) (example_reading 9 100000) ''a.txt''"
proof -
  have apart: "\<bar>microseconds_of (example_reading 9 900000) -
      microseconds_of (example_reading 10 900000)\<bar> \<ge> 1000000"
    using example_reading_micros by linarith
  note T1 = sanitize_file_name_distinct
    [of "\<lambda>x. x" "example_reading 9 900000" "''a.txt''" "example_reading 10 900000"]
  note T2 = sanitize_file_name_distinct
    [of "\<lambda>x. x" "example_reading 9 900000" "''a.txt''" "example_reading 9 100000"]
  from T1 have printed: "sanitize_file_name (\<lambda>x. x) (example_reading 9 900000) ''a.txt'' =
      ''2024-03-05 07:08:09 - a.txt''"
    by (simp add: example_reading_def text_defs)
  from T1 example_reading_valid(1,2) apart
  have differ: "sanitize_file_name (\<lambda>x. x) (example_reading 9 900000) ''a.txt'' \<noteq>
     sanitize_file_name (\<lambda>x. x) (example_reading 10 900000) ''a.txt''"
    by blast
  have fields: "year (example_reading 9 900000) = year (example_reading 9 100000) \<and>
      month (example_reading 9 900000) = month (example_reading 9 100000) \<and>
      day (example_reading 9 900000) = day (example_reading 9 100000) \<and>
      hour (example_reading 9 900000) = hour (example_reading 9 100000) \<and>
      minute (example_reading 9 900000) = minute (example_reading 9 100000) \<and>
      second (example_reading 9 900000) = second (example_reading 9 100000)"
    by (simp add: example_reading_def)
  from T2 fields
  have collide: "sanitize_file_name (\<lambda>x. x) (example_reading 9 900000) ''a.txt'' =
     sanitize_file_name (\<lambda>x. x) (example_reading 9 100000) ''a.txt''"
    by blast
  have ne: "example_reading 9 900000 \<noteq> example_reading 9 100000"
    by (simp add: example_reading_def)
  from example_reading_valid(1,2) apart printed differ ne collide show ?thesis
    by (intro conjI)
qed

end
